theory Spec2Isabelle
  imports Complex_Main "HOL-Library.Product_Lexorder"
begin

section \<open>doshmon: reconciling budget sections of a task project\<close>

text \<open>
  The theory embeds \<^verbatim>\<open>src/doshmon.py\<close>. Python strings are modelled as
  \<^typ>\<open>string\<close>; a \<^typ>\<open>char\<close> stands for one code point below 256, so the
  pound sign U+00A3 is the single character \<open>CHR 0xA3\<close>. The clock
  (\<^verbatim>\<open>datetime.now()\<close>) and the random source (\<^verbatim>\<open>uuid4()\<close>) are inputs of the
  model. Exceptions are values of the type \<open>py_error\<close>, returned as \<open>Inl\<close>.
\<close>

subsection \<open>String operations of Python used by the program\<close>

definition pound :: char where
  "pound = CHR 0xA3"

text \<open>\<^verbatim>\<open>s.startswith(p)\<close>\<close>

definition startswith :: "string \<Rightarrow> string \<Rightarrow> bool" where
  "startswith s p = (take (length p) s = p)"

text \<open>\<^verbatim>\<open>s.lower()\<close> on code points below 256: A-Z and the accented capitals
  U+00C0..U+00DE (the multiplication sign U+00D7 apart) move up by 32; every other
  character stays.\<close>

definition upper_chars :: string where
  "upper_chars = ''ABCDEFGHIJKLMNOPQRSTUVWXYZ'' @
     [CHR 0xC0, CHR 0xC1, CHR 0xC2, CHR 0xC3, CHR 0xC4, CHR 0xC5, CHR 0xC6, CHR 0xC7,
      CHR 0xC8, CHR 0xC9, CHR 0xCA, CHR 0xCB, CHR 0xCC, CHR 0xCD, CHR 0xCE, CHR 0xCF,
      CHR 0xD0, CHR 0xD1, CHR 0xD2, CHR 0xD3, CHR 0xD4, CHR 0xD5, CHR 0xD6,
      CHR 0xD8, CHR 0xD9, CHR 0xDA, CHR 0xDB, CHR 0xDC, CHR 0xDD, CHR 0xDE]"

definition lower_chars :: string where
  "lower_chars = ''abcdefghijklmnopqrstuvwxyz'' @
     [CHR 0xE0, CHR 0xE1, CHR 0xE2, CHR 0xE3, CHR 0xE4, CHR 0xE5, CHR 0xE6, CHR 0xE7,
      CHR 0xE8, CHR 0xE9, CHR 0xEA, CHR 0xEB, CHR 0xEC, CHR 0xED, CHR 0xEE, CHR 0xEF,
      CHR 0xF0, CHR 0xF1, CHR 0xF2, CHR 0xF3, CHR 0xF4, CHR 0xF5, CHR 0xF6,
      CHR 0xF8, CHR 0xF9, CHR 0xFA, CHR 0xFB, CHR 0xFC, CHR 0xFD, CHR 0xFE]"

definition lower_char :: "char \<Rightarrow> char" where
  "lower_char c = (case map_of (zip upper_chars lower_chars) c of Some d \<Rightarrow> d | None \<Rightarrow> c)"

definition lower :: "string \<Rightarrow> string" where
  "lower s = map lower_char s"

text \<open>The characters on which \<^verbatim>\<open>s.split()\<close> splits (\<^verbatim>\<open>str.isspace\<close> below 256).\<close>

definition is_space :: "char \<Rightarrow> bool" where
  "is_space c =
     (let n = (of_char c :: nat)
      in (9 \<le> n \<and> n \<le> 13) \<or> (28 \<le> n \<and> n \<le> 32) \<or> n = 133 \<or> n = 160)"

text \<open>\<^verbatim>\<open>s.split()\<close>: the maximal runs of non-space characters, in order. The
  first argument is the word being read.\<close>

fun split_ws :: "string \<Rightarrow> string \<Rightarrow> string list" where
  "split_ws w [] = (if w = [] then [] else [w])"
| "split_ws w (c # cs) =
     (if is_space c then (if w = [] then split_ws [] cs else w # split_ws [] cs)
      else split_ws (w @ [c]) cs)"

definition py_split :: "string \<Rightarrow> string list" where
  "py_split s = split_ws [] s"

text \<open>\<^verbatim>\<open>" ".join(ws)\<close>\<close>

fun join_sp :: "string list \<Rightarrow> string" where
  "join_sp [] = []"
| "join_sp [w] = w"
| "join_sp (w # ws) = w @ '' '' @ join_sp ws"

text \<open>\<^verbatim>\<open>s.replace(a, r)\<close> for a pattern \<open>a\<close> of one character.\<close>

definition replace :: "char \<Rightarrow> string \<Rightarrow> string \<Rightarrow> string" where
  "replace a r s = concat (map (\<lambda>c. if c = a then r else [c]) s)"

text \<open>Decimal rendering of a natural number and of an integer (\<^verbatim>\<open>str(n)\<close>).\<close>

definition digit_char :: "nat \<Rightarrow> char" where
  "digit_char d = ''0123456789'' ! d"

fun str_nat :: "nat \<Rightarrow> string" where
  "str_nat n = (if n < 10 then [digit_char n] else str_nat (n div 10) @ [digit_char (n mod 10)])"

declare str_nat.simps [simp del]

definition str_int :: "int \<Rightarrow> string" where
  "str_int i = (if i < 0 then CHR ''-'' # str_nat (nat (- i)) else str_nat (nat i))"

subsection \<open>The clock and the canonical schedule\<close>

text \<open>The two fields of \<^verbatim>\<open>datetime.now()\<close> that the program reads.\<close>

record now_t =
  year :: nat
  month :: nat

datatype py_error =
    ValueError
  | OverflowError
  | AttributeError string

text \<open>\<^verbatim>\<open>datetime(year=y, month=m, day=1)\<close>: the constructor raises ValueError
  outside MINYEAR..MAXYEAR and outside the months 1..12. A date is the pair
  (year, month); the day is always 1 and the time midnight, so the order of the pairs
  is the order of the datetimes.\<close>

definition MAXYEAR :: nat where
  "MAXYEAR = 9999"

definition mk_datetime :: "nat \<Rightarrow> nat \<Rightarrow> py_error + (nat \<times> nat)" where
  "mk_datetime y m =
     (if 1 \<le> y \<and> y \<le> MAXYEAR \<and> 1 \<le> m \<and> m \<le> 12 then Inr (y, m) else Inl ValueError)"

text \<open>The year given to month \<open>m\<close> (the if/elif/else of the loop body).\<close>

definition assign_year :: "now_t \<Rightarrow> nat \<Rightarrow> nat" where
  "assign_year now m =
     (if m = month now then year now
      else if m < month now then year now + 1
      else year now)"

text \<open>The loop \<^verbatim>\<open>for month in range(1, 13)\<close> that fills \<^verbatim>\<open>expected_dts\<close>.\<close>

fun dts_loop :: "now_t \<Rightarrow> nat list \<Rightarrow> (nat \<times> nat) list \<Rightarrow> py_error + (nat \<times> nat) list" where
  "dts_loop now [] acc = Inr acc"
| "dts_loop now (m # ms) acc =
     (case mk_datetime (assign_year now m) m of
        Inl e \<Rightarrow> Inl e
      | Inr d \<Rightarrow> dts_loop now ms (acc @ [d]))"

definition expected_dts :: "now_t \<Rightarrow> py_error + (nat \<times> nat) list" where
  "expected_dts now = dts_loop now [1 ..< 13] []"

text \<open>\<^verbatim>\<open>strftime('%B %Y')\<close> in the C locale.\<close>

definition month_name :: "nat \<Rightarrow> string" where
  "month_name m =
     (if m = 1 then ''January'' else if m = 2 then ''February''
      else if m = 3 then ''March'' else if m = 4 then ''April''
      else if m = 5 then ''May'' else if m = 6 then ''June''
      else if m = 7 then ''July'' else if m = 8 then ''August''
      else if m = 9 then ''September'' else if m = 10 then ''October''
      else if m = 11 then ''November'' else ''December'')"

definition strftime_BY :: "nat \<times> nat \<Rightarrow> string" where
  "strftime_BY d = month_name (snd d) @ '' '' @ str_nat (fst d)"

definition get_expected_sections :: "now_t \<Rightarrow> py_error + string list" where
  "get_expected_sections now =
     (case expected_dts now of
        Inl e \<Rightarrow> Inl e
      | Inr dts \<Rightarrow>
          (let expected = map strftime_BY (sort dts)
           in Inr (take 1 expected @ [''Backlog''] @ drop 1 expected)))"

text \<open>The label of the current month, \<^verbatim>\<open>now.strftime("%B %Y")\<close>.\<close>

definition now_label :: "now_t \<Rightarrow> string" where
  "now_label now = strftime_BY (year now, month now)"

text \<open>The twelve dates in increasing order: the months from the current one to
  December of the current year, then January up to the month before the current one, of
  the next year. \<open>rolling_rest\<close> is the same list without its first date.\<close>

definition rolling :: "now_t \<Rightarrow> (nat \<times> nat) list" where
  "rolling now =
     map (\<lambda>m. (year now, m)) [month now ..< 13] @ map (\<lambda>m. (year now + 1, m)) [1 ..< month now]"

definition rolling_rest :: "now_t \<Rightarrow> (nat \<times> nat) list" where
  "rolling_rest now =
     map (\<lambda>m. (year now, m)) [month now + 1 ..< 13] @ map (\<lambda>m. (year now + 1, m)) [1 ..< month now]"

subsection \<open>Numbers: the running total of \<^verbatim>\<open>_get_total_cost\<close>\<close>

text \<open>
  The total starts as the Python int 0 and becomes a float with the first price added.
  A Python float is an IEEE 754 double. A finite double is modelled by its value, a
  rational number, and every operation that produces a float (\<^verbatim>\<open>float()\<close>, the
  addition, the conversion of an int) rounds its exact result to the nearest double, a tie
  to the double with the even mantissa. The zero is the positive zero: the program reads
  no sign (the regular expression removes it), an int converts to the positive zero, and
  a sum of doubles is the negative zero only when both are.
\<close>

datatype pyfloat = Fin rat | PInf | NInf | PNaN

datatype pynum = PInt int | PFloat pyfloat

definition MONTHLY_BUDGET :: int where
  "MONTHLY_BUDGET = 500"

text \<open>The number of binary digits and of decimal digits of a natural number.\<close>

fun bitlen :: "nat \<Rightarrow> nat" where
  "bitlen n = (if n = 0 then 0 else Suc (bitlen (n div 2)))"

declare bitlen.simps [simp del]

fun declen :: "nat \<Rightarrow> nat" where
  "declen n = (if n = 0 then 0 else Suc (declen (n div 10)))"

declare declen.simps [simp del]

definition pow2 :: "int \<Rightarrow> rat" where
  "pow2 k = (if 0 \<le> k then 2 ^ nat k else 1 / 2 ^ nat (- k))"

definition pow10 :: "int \<Rightarrow> rat" where
  "pow10 k = (if 0 \<le> k then 10 ^ nat k else 1 / 10 ^ nat (- k))"

text \<open>For a positive \<open>q\<close>: the binary exponent \<open>e\<close> with \<open>2^e \<le> q < 2^(e+1)\<close>, and the
  position \<open>k\<close> of the decimal point with \<open>10^(k-1) \<le> q < 10^k\<close>.\<close>

definition ilog2 :: "rat \<Rightarrow> int" where
  "ilog2 q = (if 1 \<le> q then int (bitlen (nat \<lfloor>q\<rfloor>)) - 1
              else - int (bitlen (nat (\<lceil>1 / q\<rceil> - 1))))"

definition ilog10 :: "rat \<Rightarrow> int" where
  "ilog10 q = (if 1 \<le> q then int (declen (nat \<lfloor>q\<rfloor>))
               else 1 - int (declen (nat (\<lceil>1 / q\<rceil> - 1))))"

text \<open>Rounding to the nearest integer, a tie to the even one.\<close>

definition round_half_even :: "rat \<Rightarrow> int" where
  "round_half_even x =
     (let f = \<lfloor>x\<rfloor>; d = x - of_int f
      in if d < 1 / 2 then f else if 1 / 2 < d then f + 1 else if even f then f else f + 1)"

text \<open>Rounding to a double. A double with binary exponent \<open>e\<close> is a multiple of
  \<open>2^(e-52)\<close> (53 bits of mantissa), and of \<open>2^(-1074)\<close> at least (the subnormal
  numbers); a result of \<open>2^1024\<close> or more is an overflow.\<close>

definition round_pos :: "rat \<Rightarrow> rat option" where
  "round_pos q =
     (let p = max (ilog2 q - 52) (- 1074);
          r = of_int (round_half_even (q / pow2 p)) * pow2 p
      in if r < 2 ^ 1024 then Some r else None)"

definition round_double :: "rat \<Rightarrow> pyfloat" where
  "round_double q =
     (if q = 0 then Fin 0
      else if 0 < q then (case round_pos q of Some r \<Rightarrow> Fin r | None \<Rightarrow> PInf)
      else (case round_pos (- q) of Some r \<Rightarrow> Fin (- r) | None \<Rightarrow> NInf))"

definition is_digit :: "char \<Rightarrow> bool" where
  "is_digit c = (c \<in> set ''0123456789'')"

definition digit_val :: "char \<Rightarrow> nat" where
  "digit_val c = of_char c - 48"

definition nat_of_digits :: "string \<Rightarrow> nat" where
  "nat_of_digits ds = foldl (\<lambda>a c. 10 * a + digit_val c) 0 ds"

text \<open>\<^verbatim>\<open>float(s)\<close> for a string without sign, underscore or white space (the
  regular expression of \<^verbatim>\<open>_get_total_cost\<close> has removed them): digits with at most
  one point and at least one digit, then possibly \<open>e\<close> or \<open>E\<close> and digits; or one of
  the words inf, infinity, nan in any case. The result is the double nearest to the
  decimal number read. \<open>None\<close> is the ValueError.\<close>

definition py_float :: "string \<Rightarrow> pyfloat option" where
  "py_float s =
     (if lower s = ''inf'' \<or> lower s = ''infinity'' then Some PInf
      else if lower s = ''nan'' then Some PNaN
      else
        let ip = takeWhile is_digit s;
            r1 = dropWhile is_digit s;
            fp = (case r1 of c # r \<Rightarrow> if c = CHR ''.'' then takeWhile is_digit r else [] | [] \<Rightarrow> []);
            r2 = (case r1 of c # r \<Rightarrow> if c = CHR ''.'' then dropWhile is_digit r else r1 | [] \<Rightarrow> []);
            mant = (of_nat (nat_of_digits (ip @ fp)) :: rat) / 10 ^ length fp
        in if ip = [] \<and> fp = [] then None
           else (case r2 of
                   [] \<Rightarrow> Some (round_double mant)
                 | c # ex \<Rightarrow>
                     if (c = CHR ''e'' \<or> c = CHR ''E'') \<and> ex \<noteq> [] \<and> list_all is_digit ex
                     then Some (round_double (mant * 10 ^ nat_of_digits ex))
                     else None))"

text \<open>The sum of two floats.\<close>

fun float_add :: "pyfloat \<Rightarrow> pyfloat \<Rightarrow> pyfloat" where
  "float_add (Fin a) (Fin b) = round_double (a + b)"
| "float_add PNaN _ = PNaN"
| "float_add _ PNaN = PNaN"
| "float_add PInf NInf = PNaN"
| "float_add NInf PInf = PNaN"
| "float_add PInf _ = PInf"
| "float_add _ PInf = PInf"
| "float_add NInf _ = NInf"
| "float_add _ NInf = NInf"

text \<open>The conversion of an int that is added to a float: the nearest double, or
  OverflowError when that is no finite number.\<close>

definition int_to_float :: "int \<Rightarrow> py_error + pyfloat" where
  "int_to_float i =
     (case round_double (of_int i) of Fin r \<Rightarrow> Inr (Fin r) | _ \<Rightarrow> Inl OverflowError)"

text \<open>\<^verbatim>\<open>total += f\<close> for a float \<open>f\<close>.\<close>

fun num_add_float :: "pynum \<Rightarrow> pyfloat \<Rightarrow> py_error + pynum" where
  "num_add_float (PInt i) f =
     (case int_to_float i of Inl e \<Rightarrow> Inl e | Inr x \<Rightarrow> Inr (PFloat (float_add x f)))"
| "num_add_float (PFloat x) f = Inr (PFloat (float_add x f))"

text \<open>\<^verbatim>\<open>cost > b\<close> for an int \<open>b\<close>; Python compares the exact values.\<close>

fun num_gt :: "pynum \<Rightarrow> int \<Rightarrow> bool" where
  "num_gt (PInt i) b = (i > b)"
| "num_gt (PFloat (Fin q)) b = (q > of_int b)"
| "num_gt (PFloat PInf) b = True"
| "num_gt (PFloat NInf) b = False"
| "num_gt (PFloat PNaN) b = False"

text \<open>\<^verbatim>\<open>str(f)\<close> for a float prints the shortest decimal number that reads back as
  the same double, and of several the nearest. With \<open>n\<close> significant digits the two
  candidates are the decimal numbers next to \<open>q\<close> below and above; \<open>repr_candidate\<close>
  gives the digits, as a number, of the one that reads back as \<open>q\<close>, and \<open>repr_search\<close>
  tries 1, 2, ... digits; 17 digits are enough for every double.\<close>

definition repr_candidate :: "rat \<Rightarrow> nat \<Rightarrow> nat option" where
  "repr_candidate q n =
     (let u = pow10 (ilog10 q - int n);
          lo = \<lfloor>q / u\<rfloor>;
          a = (round_double (of_int lo * u) = Fin q);
          b = (round_double (of_int (lo + 1) * u) = Fin q)
      in if a \<and> b then Some (nat (round_half_even (q / u)))
         else if a then Some (nat lo)
         else if b then Some (nat (lo + 1))
         else None)"

fun repr_search :: "rat \<Rightarrow> nat list \<Rightarrow> nat \<times> nat" where
  "repr_search q [] = (nat (round_half_even (q / pow10 (ilog10 q - 17))), 17)"
| "repr_search q (n # ns) =
     (case repr_candidate q n of Some m \<Rightarrow> (m, n) | None \<Rightarrow> repr_search q ns)"

definition strip_zeros :: "string \<Rightarrow> string" where
  "strip_zeros ds = rev (dropWhile (\<lambda>c. c = CHR ''0'') (rev ds))"

text \<open>The digits \<open>ds\<close> with the decimal point after the first \<open>decpt\<close> of them: in
  positional form with at least one digit after the point, and in exponent form below
  1e-4 and from 1e16 on.\<close>

definition format_repr :: "string \<Rightarrow> int \<Rightarrow> string" where
  "format_repr ds decpt =
     (if - 4 < decpt \<and> decpt \<le> 16
      then (if decpt \<le> 0 then ''0.'' @ replicate (nat (- decpt)) CHR ''0'' @ ds
            else if int (length ds) \<le> decpt
            then ds @ replicate (nat decpt - length ds) CHR ''0'' @ ''.0''
            else take (nat decpt) ds @ ''.'' @ drop (nat decpt) ds)
      else
        (let e = decpt - 1; es = str_nat (nat \<bar>e\<bar>)
         in take 1 ds @ (if 1 < length ds then ''.'' @ drop 1 ds else []) @ ''e'' @
            (if e < 0 then ''-'' else ''+'') @ (if length es < 2 then ''0'' @ es else es)))"

definition str_pos :: "rat \<Rightarrow> string" where
  "str_pos q =
     (let (m, n) = repr_search q [1 ..< 17]; ds = str_nat m
      in format_repr (strip_zeros ds) (ilog10 q - int n + int (length ds)))"

definition str_float :: "pyfloat \<Rightarrow> string" where
  "str_float f =
     (case f of
        PInf \<Rightarrow> ''inf''
      | NInf \<Rightarrow> ''-inf''
      | PNaN \<Rightarrow> ''nan''
      | Fin q \<Rightarrow>
          if q = 0 then ''0.0''
          else if q < 0 then ''-'' @ str_pos (- q)
          else str_pos q)"

text \<open>\<^verbatim>\<open>f'{cost}'\<close>\<close>

fun str_num :: "pynum \<Rightarrow> string" where
  "str_num (PInt i) = str_int i"
| "str_num (PFloat f) = str_float f"

subsection \<open>Sections, tasks and commands\<close>

text \<open>The fields of the dictionaries of the Todoist sync API that the program reads.
  A task outside every section has \<^verbatim>\<open>section_id\<close> null.\<close>

record section_t =
  s_id :: string
  s_name :: string
  s_project_id :: string

record task =
  t_id :: string
  t_content :: string
  t_section_id :: "string option"
  t_checked :: bool
  t_is_deleted :: bool
  t_project_id :: string

text \<open>The dictionaries built by the methods of class \<^verbatim>\<open>Todoist\<close>, one constructor
  for each \<^verbatim>\<open>'type'\<close>. The class has no method that builds an archive command.\<close>

datatype command =
    SectionAdd string string string string
      \<comment> \<open>section_add: temp_id, uuid, args name, args project_id\<close>
  | ItemMove string string "string option"
      \<comment> \<open>item_move: uuid, args id, args section_id\<close>
  | SectionReorder string "(string \<times> nat) list"
      \<comment> \<open>section_reorder: uuid, args sections as pairs (id, section_order)\<close>
  | SectionUpdate string string string
      \<comment> \<open>section_update: uuid, args id, args name\<close>

text \<open>Each method draws its \<^verbatim>\<open>'uuid'\<close> with \<^verbatim>\<open>random_uuid()\<close> after its arguments
  have been evaluated; the drawn value is the last argument here.\<close>

definition add_section :: "string \<Rightarrow> string \<Rightarrow> string \<Rightarrow> string \<Rightarrow> command" where
  "add_section name project_id temp_id u = SectionAdd temp_id u name project_id"

definition move_task_to_section :: "string \<Rightarrow> string option \<Rightarrow> string \<Rightarrow> command" where
  "move_task_to_section task_id section_id u = ItemMove u task_id section_id"

definition reorder_sections :: "(string \<times> nat) list \<Rightarrow> string \<Rightarrow> command" where
  "reorder_sections order_map u = SectionReorder u order_map"

definition rename_section :: "string \<Rightarrow> string \<Rightarrow> string \<Rightarrow> command" where
  "rename_section section_id name u = SectionUpdate u section_id name"

subsection \<open>Class Doshmon\<close>

text \<open>The random source is a sequence \<open>gen\<close> of identifiers and the number \<open>n\<close> of
  those already drawn: \<^verbatim>\<open>random_uuid()\<close> returns \<open>gen n\<close> and leaves \<open>n + 1\<close>.\<close>

type_synonym rng = "nat \<Rightarrow> string"

text \<open>\<^verbatim>\<open>_get_current_section_id\<close>\<close>

fun get_current_section_id :: "now_t \<Rightarrow> section_t list \<Rightarrow> string option" where
  "get_current_section_id now [] = None"
| "get_current_section_id now (s # ss) =
     (if startswith (lower (s_name s)) (lower (now_label now)) then Some (s_id s)
      else get_current_section_id now ss)"

text \<open>\<^verbatim>\<open>_get_total_cost\<close>: the characters the regular expression keeps, the inner
  loop over the words of one task (left at the first word that starts with the pound
  sign) and the outer loop over the tasks.\<close>

definition keep_char :: "char \<Rightarrow> bool" where
  "keep_char c =
     (c \<in> set (''abcdefghijklmnopqrstuvwxyz'' @ ''ABCDEFGHIJKLMNOPQRSTUVWXYZ'' @
               ''0123456789'' @ ''. '' @ [pound]))"

definition trimmed_desc :: "task \<Rightarrow> string" where
  "trimmed_desc t = filter keep_char (t_content t)"

fun words_loop :: "string list \<Rightarrow> pynum \<Rightarrow> py_error + pynum" where
  "words_loop [] tot = Inr tot"
| "words_loop (w # ws) tot =
     (if startswith w [pound]
      then (case py_float (drop 1 w) of
              None \<Rightarrow> Inl ValueError
            | Some f \<Rightarrow> num_add_float tot f)
      else words_loop ws tot)"

fun tasks_loop :: "task list \<Rightarrow> pynum \<Rightarrow> py_error + pynum" where
  "tasks_loop [] tot = Inr tot"
| "tasks_loop (t # ts) tot =
     (case words_loop (py_split (trimmed_desc t)) tot of
        Inl e \<Rightarrow> Inl e
      | Inr tot' \<Rightarrow> tasks_loop ts tot')"

definition get_total_cost :: "task list \<Rightarrow> py_error + pynum" where
  "get_total_cost tasks = tasks_loop tasks (PInt 0)"

text \<open>\<^verbatim>\<open>add_missing_sections\<close>. The state of the loop is the working list of
  sections (appended to in place), the commands and the count of identifiers drawn.
  Three identifiers are drawn for a missing label: \<^verbatim>\<open>temp_id\<close>, then the argument
  \<^verbatim>\<open>temp_id=random_uuid()\<close> of the call, then the \<^verbatim>\<open>'uuid'\<close> inside
  \<^verbatim>\<open>add_section\<close>.\<close>

definition default_name :: "string \<Rightarrow> string" where
  "default_name expected_section =
     expected_section @ '' ('' @ [pound] @ ''0.00 / '' @ [pound] @ str_int MONTHLY_BUDGET @ '')''"

fun add_missing_loop ::
  "rng \<Rightarrow> string \<Rightarrow> string list \<Rightarrow> section_t list \<times> command list \<times> nat \<Rightarrow>
   section_t list \<times> command list \<times> nat" where
  "add_missing_loop gen pid [] st = st"
| "add_missing_loop gen pid (expected_section # es) (sections, cmds, n) =
     (if \<not> list_ex (\<lambda>s. startswith (lower (s_name s)) (lower expected_section)) sections
      then
        (let name = default_name expected_section;
             temp_id = gen n;
             cmd = add_section name pid (gen (n + 1)) (gen (n + 2))
         in add_missing_loop gen pid es
              (sections @ [\<lparr>s_id = temp_id, s_name = name, s_project_id = pid\<rparr>],
               cmds @ [cmd], n + 3))
      else add_missing_loop gen pid es (sections, cmds, n))"

definition add_missing_sections ::
  "now_t \<Rightarrow> rng \<Rightarrow> string \<Rightarrow> section_t list \<Rightarrow> nat \<Rightarrow>
   py_error + (section_t list \<times> command list \<times> nat)" where
  "add_missing_sections now gen pid sections n =
     (case get_expected_sections now of
        Inl e \<Rightarrow> Inl e
      | Inr expected \<Rightarrow> Inr (add_missing_loop gen pid expected (sections, [], n)))"

text \<open>\<^verbatim>\<open>archive_unwanted_sections\<close>. Three expressions of its loop body read an
  attribute that does not exist and raise AttributeError: \<^verbatim>\<open>section.name\<close> in the
  log line (a section is a dict), \<^verbatim>\<open>self.move_task_to_section\<close> (a method of
  \<^verbatim>\<open>Todoist\<close>, not of \<^verbatim>\<open>Doshmon\<close>) and \<^verbatim>\<open>self.api.archive_section\<close> (no such
  method in \<^verbatim>\<open>Todoist\<close>). The statement after the move,
  \<^verbatim>\<open>task['section_id'] == current_section_id\<close>, is a comparison whose value is
  dropped: no task is changed.\<close>

definition section_dot_name :: "section_t \<Rightarrow> py_error + string" where
  "section_dot_name s = Inl (AttributeError ''name'')"

definition self_move_task_to_section :: "string \<Rightarrow> string option \<Rightarrow> py_error + command" where
  "self_move_task_to_section task_id section_id = Inl (AttributeError ''move_task_to_section'')"

definition api_archive_section :: "string \<Rightarrow> py_error + command" where
  "api_archive_section section_id = Inl (AttributeError ''archive_section'')"

fun move_loop :: "string option \<Rightarrow> task list \<Rightarrow> command list \<Rightarrow> py_error + command list" where
  "move_loop cur [] cmds = Inr cmds"
| "move_loop cur (t # ts) cmds =
     (case self_move_task_to_section (t_id t) cur of
        Inl e \<Rightarrow> Inl e
      | Inr c \<Rightarrow> move_loop cur ts (cmds @ [c]))"

fun archive_loop ::
  "string list \<Rightarrow> string option \<Rightarrow> task list \<Rightarrow> section_t list \<Rightarrow> command list \<Rightarrow>
   py_error + command list" where
  "archive_loop expected cur tasks [] cmds = Inr cmds"
| "archive_loop expected cur tasks (s # ss) cmds =
     (if \<not> list_ex (\<lambda>e. startswith (lower (s_name s)) (lower e)) expected
      then
        (let tasks_to_move =
               filter (\<lambda>t. t_section_id t = Some (s_id s) \<and> \<not> t_checked t \<and> \<not> t_is_deleted t) tasks
         in case section_dot_name s of
              Inl e \<Rightarrow> Inl e
            | Inr _ \<Rightarrow>
                (case move_loop cur tasks_to_move cmds of
                   Inl e \<Rightarrow> Inl e
                 | Inr cmds' \<Rightarrow>
                     (case api_archive_section (s_id s) of
                        Inl e \<Rightarrow> Inl e
                      | Inr c \<Rightarrow> archive_loop expected cur tasks ss (cmds' @ [c]))))
      else archive_loop expected cur tasks ss cmds)"

definition archive_unwanted_sections ::
  "now_t \<Rightarrow> section_t list \<Rightarrow> task list \<Rightarrow> py_error + command list" where
  "archive_unwanted_sections now sections tasks =
     (case get_expected_sections now of
        Inl e \<Rightarrow> Inl e
      | Inr expected \<Rightarrow>
          archive_loop expected (get_current_section_id now sections) tasks sections [])"

text \<open>\<^verbatim>\<open>set_section_order\<close>\<close>

definition set_section_order :: "rng \<Rightarrow> section_t list \<Rightarrow> nat \<Rightarrow> command list \<times> nat" where
  "set_section_order gen sections n =
     (let section_order_map = map (\<lambda>(idx, s). (s_id s, idx + 1)) (enumerate 0 sections)
      in ([reorder_sections section_order_map (gen n)], n + 1))"

text \<open>\<^verbatim>\<open>set_section_titles\<close>: the title computed for one section, and the loop.\<close>

definition base_title :: "section_t \<Rightarrow> pynum \<Rightarrow> string" where
  "base_title s cost =
     join_sp (take 2 (py_split (s_name s))) @
     '' ('' @ [pound] @ str_num cost @ '' / '' @ [pound] @ str_int MONTHLY_BUDGET @ '')''"

definition expected_title ::
  "now_t \<Rightarrow> section_t list \<Rightarrow> task list \<Rightarrow> section_t \<Rightarrow> py_error + string" where
  "expected_title now sections tasks s =
     (if startswith (s_name s) ''Backlog'' then Inr ''Backlog''
      else
        (let tasks_for_section = filter (\<lambda>t. t_section_id t = Some (s_id s)) tasks
         in case get_total_cost tasks_for_section of
              Inl e \<Rightarrow> Inl e
            | Inr cost \<Rightarrow>
                Inr (if Some (s_id s) = get_current_section_id now sections
                        \<and> num_gt cost MONTHLY_BUDGET
                     then replace (CHR '')'') '' !!!'' (replace (CHR ''('') ''!!! '' (base_title s cost))
                     else base_title s cost)))"

fun titles_loop ::
  "now_t \<Rightarrow> rng \<Rightarrow> section_t list \<Rightarrow> task list \<Rightarrow> section_t list \<Rightarrow> command list \<times> nat \<Rightarrow>
   py_error + (command list \<times> nat)" where
  "titles_loop now gen sections tasks [] st = Inr st"
| "titles_loop now gen sections tasks (s # ss) (cmds, n) =
     (case expected_title now sections tasks s of
        Inl e \<Rightarrow> Inl e
      | Inr title \<Rightarrow>
          if title \<noteq> s_name s
          then titles_loop now gen sections tasks ss
                 (cmds @ [rename_section (s_id s) title (gen n)], n + 1)
          else titles_loop now gen sections tasks ss (cmds, n))"

definition set_section_titles ::
  "now_t \<Rightarrow> rng \<Rightarrow> section_t list \<Rightarrow> task list \<Rightarrow> nat \<Rightarrow> py_error + (command list \<times> nat)" where
  "set_section_titles now gen sections tasks n = titles_loop now gen sections tasks sections ([], n)"

text \<open>\<^verbatim>\<open>do_housekeeping\<close> on the snapshot that \<^verbatim>\<open>get_state\<close> returned; the result
  is the list of commands handed to \<^verbatim>\<open>do_update\<close>.\<close>

definition do_housekeeping ::
  "now_t \<Rightarrow> rng \<Rightarrow> string \<Rightarrow> section_t list \<Rightarrow> task list \<Rightarrow> py_error + command list" where
  "do_housekeeping now gen pid sections tasks =
     (case add_missing_sections now gen pid sections 0 of
        Inl e \<Rightarrow> Inl e
      | Inr (sections1, cmds1, n1) \<Rightarrow>
          (case archive_unwanted_sections now sections1 tasks of
             Inl e \<Rightarrow> Inl e
           | Inr cmds2 \<Rightarrow>
               (let (cmds3, n3) = set_section_order gen sections1 n1
                in case set_section_titles now gen sections1 tasks n3 of
                     Inl e \<Rightarrow> Inl e
                   | Inr (cmds4, n4) \<Rightarrow> Inr (cmds1 @ cmds2 @ cmds3 @ cmds4))))"

subsection \<open>Notions used to state the properties\<close>

text \<open>The first word of a task that starts with the pound sign, and the price the
  task contributes: \<open>Inr None\<close> without such a word, \<open>Inl ValueError\<close> when the rest of
  the word is not a number for \<^verbatim>\<open>float()\<close>.\<close>

definition first_price :: "task \<Rightarrow> string option" where
  "first_price t = find (\<lambda>w. startswith w [pound]) (py_split (trimmed_desc t))"

definition price_of :: "task \<Rightarrow> py_error + pyfloat option" where
  "price_of t =
     (case first_price t of
        None \<Rightarrow> Inr None
      | Some w \<Rightarrow> (case py_float (drop 1 w) of None \<Rightarrow> Inl ValueError | Some f \<Rightarrow> Inr (Some f)))"

text \<open>The prices of the tasks that have one, in the order of the tasks, and their sum as
  the program computes it: the int 0 when there is no price, and else the float
  \<open>0.0 + f1 + f2 + ...\<close>, added from the left.\<close>

definition prices :: "task list \<Rightarrow> pyfloat list" where
  "prices ts = concat (map (\<lambda>t. case price_of t of Inr (Some f) \<Rightarrow> [f] | _ \<Rightarrow> []) ts)"

definition float_sum :: "pyfloat list \<Rightarrow> pynum" where
  "float_sum fs = (if fs = [] then PInt 0 else PFloat (foldl float_add (Fin 0) fs))"

text \<open>The payload (section id, new name) of a rename command.\<close>

fun update_of :: "command \<Rightarrow> (string \<times> string) option" where
  "update_of (SectionUpdate u i n) = Some (i, n)"
| "update_of _ = None"

text \<open>The tasks that \<^verbatim>\<open>set_section_titles\<close> gathers for a section.\<close>

definition tasks_for :: "task list \<Rightarrow> section_t \<Rightarrow> task list" where
  "tasks_for tasks s = filter (\<lambda>t. t_section_id t = Some (s_id s)) tasks"

text \<open>The two replacements that put the overspend markers into a title.\<close>

definition mark :: "string \<Rightarrow> string" where
  "mark title = replace (CHR '')'') '' !!!'' (replace (CHR ''('') ''!!! '' title)"

text \<open>A task with the given content, in no section.\<close>

definition task_of :: "string \<Rightarrow> task" where
  "task_of c = \<lparr>t_id = ''t'', t_content = c, t_section_id = None, t_checked = False,
                t_is_deleted = False, t_project_id = ''p''\<rparr>"

subsection \<open>Example data\<close>

text \<open>A date, a random source, sections and tasks on which the properties below are
  evaluated.\<close>

definition ex_now :: now_t where
  "ex_now = \<lparr>year = 2025, month = 3\<rparr>"

definition ex_gen :: rng where
  "ex_gen n = ''u'' @ str_nat n"

definition ex_march :: section_t where
  "ex_march = \<lparr>s_id = ''s1'', s_name = ''March 2025'', s_project_id = ''p''\<rparr>"

definition ex_april :: section_t where
  "ex_april = \<lparr>s_id = ''s2'', s_name = ''April 2025'', s_project_id = ''p''\<rparr>"

definition ex_backlog :: section_t where
  "ex_backlog = \<lparr>s_id = ''s0'',
     s_name = ''Backlog ('' @ [pound] @ ''0.00 / '' @ [pound] @ ''500)'', s_project_id = ''p''\<rparr>"

definition ex_task_march :: task where
  "ex_task_march = \<lparr>t_id = ''t1'', t_content = ''Rent '' @ [pound] @ ''550'',
     t_section_id = Some ''s1'', t_checked = False, t_is_deleted = False, t_project_id = ''p''\<rparr>"

definition ex_task_april :: task where
  "ex_task_april = \<lparr>t_id = ''t2'', t_content = ''Car '' @ [pound] @ ''600'',
     t_section_id = Some ''s2'', t_checked = True, t_is_deleted = False, t_project_id = ''p''\<rparr>"

definition ex_old :: section_t where
  "ex_old = \<lparr>s_id = ''s9'', s_name = ''Old stuff'', s_project_id = ''p''\<rparr>"

definition ex_old_task :: "string \<Rightarrow> bool \<Rightarrow> task" where
  "ex_old_task i done = \<lparr>t_id = i, t_content = ''Sell bike'', t_section_id = Some ''s9'',
     t_checked = done, t_is_deleted = False, t_project_id = ''p''\<rparr>"

text \<open>A project that has a section for each of the twelve months, with the title that
  \<^verbatim>\<open>set_section_titles\<close> computes for a section without tasks, and a section named
  "backlog" in lower case.\<close>

definition ex_month_section :: "nat \<times> nat \<Rightarrow> section_t" where
  "ex_month_section d =
     \<lparr>s_id = ''m'' @ str_nat (snd d),
      s_name = strftime_BY d @ '' ('' @ [pound] @ ''0 / '' @ [pound] @ ''500)'',
      s_project_id = ''p''\<rparr>"

definition ex_snapshot :: "string \<Rightarrow> section_t list" where
  "ex_snapshot backlog_name =
     map ex_month_section (rolling ex_now) @
     [\<lparr>s_id = ''b'', s_name = backlog_name, s_project_id = ''p''\<rparr>]"

definition ex_order :: "(string \<times> nat) list" where
  "ex_order = zip (map s_id (ex_snapshot [])) [1 ..< 14]"

subsection \<open>The remote state\<close>

text \<open>Modelled from the spec: the Remote State Gateway's \<open>apply\<close>, the service behind
  \<^verbatim>\<open>do_update\<close>, is not code of the repository. A create-section intent appends a
  section under its temporary identifier, a relocate-task intent sets the section of the
  task, a reorder intent lists the sections in the order given (sections it does not
  name follow), a rename intent sets the name of the section with the given identifier;
  an intent that names no existing section or task changes nothing.\<close>

fun apply_cmd :: "command \<Rightarrow> section_t list \<times> task list \<Rightarrow> section_t list \<times> task list" where
  "apply_cmd (SectionAdd temp u name pid) (secs, tasks) =
     (secs @ [\<lparr>s_id = temp, s_name = name, s_project_id = pid\<rparr>], tasks)"
| "apply_cmd (ItemMove u tid sid) (secs, tasks) =
     (secs, map (\<lambda>t. if t_id t = tid then t\<lparr>t_section_id := sid\<rparr> else t) tasks)"
| "apply_cmd (SectionReorder u order) (secs, tasks) =
     (concat (map (\<lambda>(i, k). filter (\<lambda>s. s_id s = i) secs) order) @
      filter (\<lambda>s. s_id s \<notin> set (map fst order)) secs, tasks)"
| "apply_cmd (SectionUpdate u sid name) (secs, tasks) =
     (map (\<lambda>s. if s_id s = sid then s\<lparr>s_name := name\<rparr> else s) secs, tasks)"

definition apply_cmds :: "command list \<Rightarrow> section_t list \<times> task list \<Rightarrow> section_t list \<times> task list" where
  "apply_cmds cmds st = fold apply_cmd cmds st"

section \<open>Properties of the canonical schedule\<close>

lemma dts_loop_ok:
  "\<forall>m\<in>set ms. 1 \<le> m \<and> m \<le> 12 \<Longrightarrow> 1 \<le> year now \<Longrightarrow> year now < MAXYEAR \<Longrightarrow>
   dts_loop now ms acc = Inr (acc @ map (\<lambda>m. (assign_year now m, m)) ms)"
  by (induction ms arbitrary: acc) (auto simp: mk_datetime_def assign_year_def)

lemma expected_dts_ok:
  "1 \<le> year now \<Longrightarrow> year now < MAXYEAR \<Longrightarrow>
   expected_dts now = Inr (map (\<lambda>m. (assign_year now m, m)) [1 ..< 13])"
  unfolding expected_dts_def by (subst dts_loop_ok) auto

lemma months_split:
  assumes "1 \<le> mo" "mo \<le> 12"
  shows "[1 ..< 13] = [1 ..< mo] @ [mo ..< 13]"
proof -
  obtain k where k: "mo = 1 + k" using assms(1) le_Suc_ex by blast
  obtain j where j: "13 = mo + j" using assms(2) by (metis le_Suc_ex eval_nat_numeral(3) le_SucI)
  have "[1 ..< mo + j] = [1 ..< mo] @ [mo ..< mo + j]"
    unfolding k by (rule upt_add_eq_append) simp
  then show ?thesis using j by simp
qed

lemma assigned_split:
  assumes "1 \<le> month now" "month now \<le> 12"
  shows "map (\<lambda>m. (assign_year now m, m)) [1 ..< 13] =
         map (\<lambda>m. (year now + 1, m)) [1 ..< month now] @
         map (\<lambda>m. (year now, m)) [month now ..< 13]"
  by (subst months_split[OF assms]) (auto simp: assign_year_def)

lemma sorted_wrt_map_pair: "sorted_wrt (<) (map (\<lambda>m. (y::nat, m)) [a ..< b])"
  by (induction b) (auto simp: sorted_wrt_append less_prod_def)

lemma rolling_strict: "sorted_wrt (<) (rolling now)"
  unfolding rolling_def
  by (auto simp: sorted_wrt_append sorted_wrt_map_pair less_prod_def)

lemma sort_assigned:
  assumes "1 \<le> month now" "month now \<le> 12"
  shows "sort (map (\<lambda>m. (assign_year now m, m)) [1 ..< 13]) = rolling now"
proof (rule sorted_distinct_set_unique)
  let ?l = "map (\<lambda>m. (assign_year now m, m)) [1 ..< 13]"
  have st: "sorted (rolling now) \<and> distinct (rolling now)"
    using rolling_strict strict_sorted_iff by blast
  show "sorted (sort ?l)" by simp
  show "sorted (rolling now)" "distinct (rolling now)" using st by auto
  have eq: "set ?l = set (rolling now)"
    unfolding assigned_split[OF assms] rolling_def by auto
  show "set (sort ?l) = set (rolling now)" using eq by simp
  have "distinct ?l"
    by (simp add: distinct_map inj_on_def)
  then show "distinct (sort ?l)" by simp
qed

lemma rolling_Cons:
  assumes "month now \<le> 12"
  shows "rolling now = (year now, month now) # rolling_rest now"
  using assms unfolding rolling_def rolling_rest_def
  by (simp add: upt_conv_Cons)

lemma length_rolling_rest:
  assumes "1 \<le> month now" "month now \<le> 12"
  shows "length (rolling_rest now) = 11"
  using assms unfolding rolling_rest_def by simp

lemma get_expected_sections_eq:
  assumes "1 \<le> month now" "month now \<le> 12" "1 \<le> year now" "year now < MAXYEAR"
  shows "get_expected_sections now =
         Inr (now_label now # ''Backlog'' # map strftime_BY (rolling_rest now))"
  unfolding get_expected_sections_def expected_dts_ok[OF assms(3,4)] sum.case
    sort_assigned[OF assms(1,2)] rolling_Cons[OF assms(2)]
  by (simp add: now_label_def)

text \<open>
  C3. For a current date with a month in 1..12 and a year below MAXYEAR (so that the
  following year is still a date), the schedule builder gives month \<open>m\<close> the current year
  if \<open>m\<close> is the current month, the next year if \<open>m\<close> is smaller, and the current year
  otherwise; the twelve dates, sorted, increase strictly; the rendered sequence has 13
  elements: the label of the current month, then Backlog, then the other 11 labels.
\<close>

theorem schedule_builder:
  assumes "1 \<le> month now" "month now \<le> 12" "1 \<le> year now" "year now < MAXYEAR"
  shows "\<exists>dts labels.
           expected_dts now = Inr dts \<and>
           dts = map (\<lambda>m. (if m = month now then year now
                            else if m < month now then year now + 1
                            else year now, m)) [1 ..< 13] \<and>
           sorted_wrt (<) (sort dts) \<and>
           get_expected_sections now = Inr labels \<and>
           length labels = 13 \<and>
           labels = [now_label now, ''Backlog''] @ map strftime_BY (tl (sort dts)) \<and>
           length (tl (sort dts)) = 11 \<and>
           labels ! 0 = strftime_BY (year now, month now)"
proof -
  let ?dts = "map (\<lambda>m. (assign_year now m, m)) [1 ..< 13]"
  have s: "sort ?dts = rolling now" by (rule sort_assigned[OF assms(1,2)])
  have "expected_dts now = Inr ?dts" by (rule expected_dts_ok[OF assms(3,4)])
  moreover have "?dts = map (\<lambda>m. (if m = month now then year now
                            else if m < month now then year now + 1
                            else year now, m)) [1 ..< 13]"
    by (simp add: assign_year_def)
  moreover have "sorted_wrt (<) (sort ?dts)" unfolding s by (rule rolling_strict)
  moreover have "get_expected_sections now =
      Inr ([now_label now, ''Backlog''] @ map strftime_BY (tl (sort ?dts)))"
    unfolding s by (simp add: get_expected_sections_eq[OF assms] rolling_Cons[OF assms(2)])
  moreover have "length (tl (sort ?dts)) = 11"
    unfolding s by (simp add: rolling_Cons[OF assms(2)] length_rolling_rest[OF assms(1,2)])
  ultimately show ?thesis
    by (simp add: now_label_def del: upt_Suc)
qed

theorem schedule_builder_witness:
  "\<exists>labels. get_expected_sections \<lparr>year = 2025, month = 3\<rparr> = Inr labels \<and>
     length labels = 13 \<and> labels ! 0 = ''March 2025''"
  using schedule_builder [of "\<lparr>year = 2025, month = 3\<rparr>"]
  by (auto simp: MAXYEAR_def strftime_BY_def month_name_def str_nat.simps digit_char_def)

lemma month_name_no_space: "CHR '' '' \<notin> set (month_name m)"
  by (simp add: month_name_def)

lemma first_word_label:
  "takeWhile (\<lambda>c. c \<noteq> CHR '' '') (strftime_BY (y, m)) = month_name m"
  unfolding strftime_BY_def using month_name_no_space[of m]
  by (subst takeWhile_append2) auto

lemma month_name_inj:
  "1 \<le> m \<Longrightarrow> m \<le> 12 \<Longrightarrow> 1 \<le> m' \<Longrightarrow> m' \<le> 12 \<Longrightarrow> month_name m = month_name m' \<Longrightarrow> m = m'"
  by (simp add: month_name_def split: if_splits) presburger

lemma label_inj:
  assumes "1 \<le> snd d" "snd d \<le> 12" "1 \<le> snd d'" "snd d' \<le> 12"
    and "strftime_BY d = strftime_BY d'"
  shows "snd d = snd d'"
proof -
  have "month_name (snd d) = month_name (snd d')"
    using first_word_label[of "fst d" "snd d"] first_word_label[of "fst d'" "snd d'"] assms(5)
    by simp
  then show ?thesis using assms(1-4) by (rule month_name_inj[rotated 4])
qed

lemma label_not_Backlog: "strftime_BY d \<noteq> ''Backlog''"
proof
  assume "strftime_BY d = ''Backlog''"
  then have "takeWhile (\<lambda>c. c \<noteq> CHR '' '') (strftime_BY (fst d, snd d)) = ''Backlog''"
    by simp
  then show False
    unfolding first_word_label by (simp add: month_name_def split: if_splits)
qed

lemma distinct_labels:
  assumes "distinct (map snd ds)" "\<forall>d\<in>set ds. 1 \<le> snd d \<and> snd d \<le> 12"
  shows "distinct (map strftime_BY ds)"
proof -
  have "inj_on strftime_BY (set ds)"
  proof (rule inj_onI)
    fix d d' assume a: "d \<in> set ds" "d' \<in> set ds" "strftime_BY d = strftime_BY d'"
    then have "snd d = snd d'" using assms(2) label_inj by blast
    moreover have "inj_on snd (set ds)" using assms(1) by (simp add: distinct_map)
    ultimately show "d = d'" using a(1,2) by (auto dest: inj_onD)
  qed
  moreover have "distinct ds" using assms(1) by (rule distinct_map[THEN iffD1, THEN conjunct1])
  ultimately show ?thesis by (simp add: distinct_map)
qed

lemma rolling_months:
  assumes "1 \<le> month now" "month now \<le> 12"
  shows "distinct (map snd (rolling now))" "\<forall>d\<in>set (rolling now). 1 \<le> snd d \<and> snd d \<le> 12"
  using assms unfolding rolling_def by (auto simp: distinct_map inj_on_def comp_def)

lemma count_list_distinct: "distinct xs \<Longrightarrow> x \<in> set xs \<Longrightarrow> count_list xs x = 1"
  by (induction xs) (auto simp: count_list_0_iff)

lemma expected_sections_distinct:
  assumes "1 \<le> month now" "month now \<le> 12"
  shows "distinct (now_label now # ''Backlog'' # map strftime_BY (rolling_rest now))"
proof -
  have "distinct (map strftime_BY (rolling now))"
    using rolling_months[OF assms] by (rule distinct_labels)
  then have "distinct (now_label now # map strftime_BY (rolling_rest now))"
    by (simp add: rolling_Cons[OF assms(2)] now_label_def)
  moreover have "''Backlog'' \<notin> set (now_label now # map strftime_BY (rolling_rest now))"
    using label_not_Backlog[THEN not_sym] by (auto simp: now_label_def)
  ultimately show ?thesis by auto
qed

lemma expected_2025_03:
  "get_expected_sections \<lparr>year = 2025, month = 3\<rparr> =
     Inr [''March 2025'', ''Backlog'', ''April 2025'', ''May 2025'', ''June 2025'',
          ''July 2025'', ''August 2025'', ''September 2025'', ''October 2025'',
          ''November 2025'', ''December 2025'', ''January 2026'', ''February 2026'']"
  by (subst get_expected_sections_eq)
     (simp_all add: MAXYEAR_def now_label_def rolling_rest_def upt_rec strftime_BY_def
        month_name_def str_nat.simps digit_char_def)

text \<open>
  C4 (as stated, refuted). On 2025-03 the schedule has 13 labels, not 14, and the label
  of the current month occurs once.
\<close>

theorem schedule_length_counterexample:
  "get_expected_sections \<lparr>year = 2025, month = 3\<rparr> =
     Inr [''March 2025'', ''Backlog'', ''April 2025'', ''May 2025'', ''June 2025'',
          ''July 2025'', ''August 2025'', ''September 2025'', ''October 2025'',
          ''November 2025'', ''December 2025'', ''January 2026'', ''February 2026''] \<and>
   length (projr (get_expected_sections \<lparr>year = 2025, month = 3\<rparr>)) = 13 \<and>
   count_list (projr (get_expected_sections \<lparr>year = 2025, month = 3\<rparr>))
     (now_label \<lparr>year = 2025, month = 3\<rparr>) = 1"
  unfolding expected_2025_03
  by (simp add: now_label_def strftime_BY_def month_name_def str_nat.simps digit_char_def)

text \<open>
  C4 (amended). For every current date (month in 1..12, year below MAXYEAR) the
  canonical schedule is a sequence of 13 labels, all different: the label of the current
  month first, Backlog second, then the labels of the other 11 months in chronological
  order, that is the months after the current one of the current year followed by the
  months before the current one of the next year; the label of the current month occurs
  exactly once.
\<close>

theorem schedule_no_duplicate:
  assumes "1 \<le> month now" "month now \<le> 12" "1 \<le> year now" "year now < MAXYEAR"
  shows "\<exists>labels others.
           get_expected_sections now = Inr labels \<and>
           others = map (\<lambda>m. (year now, m)) [month now + 1 ..< 13] @
                    map (\<lambda>m. (year now + 1, m)) [1 ..< month now] \<and>
           labels = now_label now # ''Backlog'' # map strftime_BY others \<and>
           length others = 11 \<and>
           sorted_wrt (<) ((year now, month now) # others) \<and>
           length labels = 13 \<and> labels ! 0 = now_label now \<and> labels ! 1 = ''Backlog'' \<and>
           distinct labels \<and> count_list labels (now_label now) = 1"
proof -
  let ?ls = "now_label now # ''Backlog'' # map strftime_BY (rolling_rest now)"
  have d: "distinct ?ls" by (rule expected_sections_distinct[OF assms(1,2)])
  have c: "count_list ?ls (now_label now) = 1"
    by (rule count_list_distinct[OF d]) simp
  have l: "length (rolling_rest now) = 11" by (rule length_rolling_rest[OF assms(1,2)])
  have s: "sorted_wrt (<) ((year now, month now) # rolling_rest now)"
    using rolling_strict[of now] unfolding rolling_Cons[OF assms(2)] .
  have r: "rolling_rest now = map (\<lambda>m. (year now, m)) [month now + 1 ..< 13] @
                    map (\<lambda>m. (year now + 1, m)) [1 ..< month now]"
    by (simp add: rolling_rest_def)
  show ?thesis
    using d c l s get_expected_sections_eq[OF assms]
    by (intro exI[of _ ?ls] exI[of _ "rolling_rest now"]) (simp add: r)
qed

theorem schedule_no_duplicate_witness:
  "get_expected_sections \<lparr>year = 2024, month = 12\<rparr> =
     Inr [''December 2024'', ''Backlog'', ''January 2025'', ''February 2025'', ''March 2025'',
          ''April 2025'', ''May 2025'', ''June 2025'', ''July 2025'', ''August 2025'',
          ''September 2025'', ''October 2025'', ''November 2025'']"
  using schedule_no_duplicate [of "\<lparr>year = 2024, month = 12\<rparr>"]
  by (auto simp: MAXYEAR_def now_label_def strftime_BY_def month_name_def str_nat.simps
      digit_char_def upt_rec)

section \<open>Properties of the cost computation\<close>

lemmas char_eval =
  pound_def startswith_def lower_def lower_char_def upper_chars_def lower_chars_def
  is_space_def is_digit_def digit_val_def nat_of_digits_def keep_char_def

text \<open>Floor and ceiling of a fraction of two numerals, for the evaluation of the
  rounding.\<close>

lemma floor_rat_numeral: "\<lfloor>(numeral a :: rat) / numeral b\<rfloor> = numeral a div numeral b"
  using floor_divide_of_int_eq[of "numeral a" "numeral b", where ?'a = rat] by simp

lemma floor_rat_one: "\<lfloor>(1 :: rat) / numeral b\<rfloor> = 1 div numeral b"
  using floor_divide_of_int_eq[of 1 "numeral b", where ?'a = rat] by simp

lemma ceiling_rat_numeral:
  "\<lceil>(numeral a :: rat) / numeral b\<rceil> = - (- numeral a div numeral b)"
  using floor_divide_of_int_eq[of "- numeral a" "numeral b", where ?'a = rat]
  by (simp add: ceiling_def)

lemma ceiling_rat_one: "\<lceil>(1 :: rat) / numeral b\<rceil> = - (- 1 div numeral b)"
  using floor_divide_of_int_eq[of "- 1" "numeral b", where ?'a = rat]
  by (simp add: ceiling_def)

lemmas float_eval =
  round_double_def round_pos_def ilog2_def bitlen.simps pow2_def round_half_even_def
  floor_rat_numeral floor_rat_one ceiling_rat_numeral ceiling_rat_one

lemma replicate_numeral: "replicate (numeral k) x = x # replicate (pred_numeral k) x"
  by (simp add: numeral_eq_Suc)

lemmas repr_eval =
  str_float_def str_pos_def repr_candidate_def ilog10_def declen.simps pow10_def
  strip_zeros_def format_repr_def str_nat.simps digit_char_def upt_rec replicate_numeral

lemma int_to_float_0: "int_to_float 0 = Inr (Fin 0)"
  by (simp add: int_to_float_def round_double_def)

lemma num_add_float_0: "num_add_float (PInt 0) f = Inr (PFloat (float_add (Fin 0) f))"
  by (simp add: int_to_float_0)

lemma words_loop_find:
  "words_loop ws tot =
     (case find (\<lambda>w. startswith w [pound]) ws of
        None \<Rightarrow> Inr tot
      | Some w \<Rightarrow> (case py_float (drop 1 w) of
                     None \<Rightarrow> Inl ValueError
                   | Some f \<Rightarrow> num_add_float tot f))"
  by (induction ws) auto

lemma words_loop_price:
  "words_loop (py_split (trimmed_desc t)) tot =
     (case price_of t of
        Inl e \<Rightarrow> Inl ValueError
      | Inr None \<Rightarrow> Inr tot
      | Inr (Some f) \<Rightarrow> num_add_float tot f)"
  by (simp add: words_loop_find price_of_def first_price_def split: option.splits)

lemma price_of_error: "price_of t = Inl e \<Longrightarrow> e = ValueError"
  by (auto simp: price_of_def split: option.splits)

lemma prices_Cons:
  "prices (t # ts) = (case price_of t of Inr (Some f) \<Rightarrow> [f] | _ \<Rightarrow> []) @ prices ts"
  by (simp add: prices_def)

lemma tasks_loop_float:
  "tasks_loop ts (PFloat x) =
     (if \<forall>t\<in>set ts. price_of t \<noteq> Inl ValueError
      then Inr (PFloat (foldl float_add x (prices ts))) else Inl ValueError)"
proof (induction ts arbitrary: x)
  case Nil
  then show ?case by (simp add: prices_def)
next
  case (Cons t ts)
  show ?case
  proof (cases "price_of t")
    case (Inl e)
    then have "e = ValueError" by (rule price_of_error)
    with Inl show ?thesis by (simp add: words_loop_price)
  next
    case (Inr p)
    then show ?thesis using Cons.IH
      by (cases p) (simp_all add: words_loop_price prices_Cons)
  qed
qed

lemma tasks_loop_zero:
  "tasks_loop ts (PInt 0) =
     (if \<forall>t\<in>set ts. price_of t \<noteq> Inl ValueError
      then Inr (float_sum (prices ts)) else Inl ValueError)"
proof (induction ts)
  case Nil
  then show ?case by (simp add: prices_def float_sum_def)
next
  case (Cons t ts)
  show ?case
  proof (cases "price_of t")
    case (Inl e)
    then have "e = ValueError" by (rule price_of_error)
    with Inl show ?thesis by (simp add: words_loop_price)
  next
    case (Inr p)
    then show ?thesis using Cons.IH
      by (cases p)
         (simp_all add: words_loop_price prices_Cons int_to_float_0 tasks_loop_float float_sum_def)
  qed
qed

lemma get_total_cost_eq:
  "get_total_cost ts =
     (if \<forall>t\<in>set ts. price_of t \<noteq> Inl ValueError
      then Inr (float_sum (prices ts)) else Inl ValueError)"
  unfolding get_total_cost_def by (rule tasks_loop_zero)

lemma round_exact:
  "round_double (7 / 2) = Fin (7 / 2)" "round_double 10 = Fin 10" "round_double 450 = Fin 450"
  "round_double (27 / 2) = Fin (27 / 2)" "round_double 550 = Fin 550" "round_double 600 = Fin 600"
  by (simp_all add: float_eval)

lemma trimmed_milk:
  "trimmed_desc (t\<lparr>t_content := ''Buy milk '' @ [pound] @ ''3.50 and eggs''\<rparr>) =
     ''Buy milk '' @ [pound] @ ''3.50 and eggs''"
  by (simp add: trimmed_desc_def keep_char_def pound_def)

lemma price_milk:
  "price_of (t\<lparr>t_content := ''Buy milk '' @ [pound] @ ''3.50 and eggs''\<rparr>) = Inr (Some (Fin (7 / 2)))"
  by (simp add: price_of_def first_price_def trimmed_desc_def py_split_def
      py_float_def char_eval round_exact)

lemma price_none:
  "price_of (t\<lparr>t_content := ''No price here''\<rparr>) = Inr None"
  by (simp add: price_of_def first_price_def trimmed_desc_def py_split_def
      py_float_def char_eval)

lemma price_first:
  "price_of (t\<lparr>t_content := [pound] @ ''10 '' @ [pound] @ ''20''\<rparr>) = Inr (Some (Fin 10))"
  by (simp add: price_of_def first_price_def trimmed_desc_def py_split_def
      py_float_def char_eval round_exact)

lemma trimmed_rent:
  "trimmed_desc (t\<lparr>t_content := ''Rent: '' @ [pound] @ ''450.00!!''\<rparr>) = ''Rent '' @ [pound] @ ''450.00''"
  by (simp add: trimmed_desc_def keep_char_def pound_def)

lemma price_rent:
  "price_of (t\<lparr>t_content := ''Rent: '' @ [pound] @ ''450.00!!''\<rparr>) = Inr (Some (Fin 450))"
  by (simp add: price_of_def first_price_def trimmed_desc_def py_split_def
      py_float_def char_eval round_exact)

lemma price_tbd:
  "price_of (t\<lparr>t_content := ''Fee '' @ [pound] @ ''TBD''\<rparr>) = Inl ValueError"
  by (simp add: price_of_def first_price_def trimmed_desc_def py_split_def
      py_float_def char_eval)

lemma price_bare:
  "price_of (t\<lparr>t_content := [pound]\<rparr>) = Inl ValueError"
  by (simp add: price_of_def first_price_def trimmed_desc_def py_split_def
      py_float_def char_eval)

lemma total_single:
  "get_total_cost [t] =
     (case price_of t of
        Inl e \<Rightarrow> Inl ValueError
      | Inr None \<Rightarrow> Inr (PInt 0)
      | Inr (Some f) \<Rightarrow> Inr (PFloat (float_add (Fin 0) f)))"
  by (simp add: get_total_cost_def words_loop_price int_to_float_0
      split: sum.splits option.splits)

lemma length_prices: "length (prices ts) \<le> length ts"
  by (induction ts) (auto simp: prices_def split: sum.splits option.splits)

text \<open>The rounding at work: 0.1 and 0.2 are not doubles, and the sum of the two doubles
  read for them is the double that Python prints as 0.30000000000000004; a price of
  500.00000000000001 is read as 500.0.\<close>

lemma round_tenths:
  "round_double (1 / 10) = Fin (3602879701896397 / 36028797018963968)"
  "round_double (1 / 5) = Fin (3602879701896397 / 18014398509481984)"
  "round_double (3602879701896397 / 36028797018963968) = Fin (3602879701896397 / 36028797018963968)"
  "round_double (10808639105689191 / 36028797018963968) = Fin (1351079888211149 / 4503599627370496)"
  "round_double (50000000000000001 / 100000000000000) = Fin 500"
  by (simp_all add: float_eval)

lemma price_tenth:
  "price_of (t\<lparr>t_content := [pound] @ ''0.1''\<rparr>) =
     Inr (Some (Fin (3602879701896397 / 36028797018963968)))"
  by (simp add: price_of_def first_price_def trimmed_desc_def py_split_def
      py_float_def char_eval round_tenths)

lemma price_fifth:
  "price_of (t\<lparr>t_content := [pound] @ ''0.2''\<rparr>) =
     Inr (Some (Fin (3602879701896397 / 18014398509481984)))"
  by (simp add: price_of_def first_price_def trimmed_desc_def py_split_def
      py_float_def char_eval round_tenths)

lemma price_above_budget:
  "price_of (t\<lparr>t_content := [pound] @ ''500.00000000000001''\<rparr>) = Inr (Some (Fin 500))"
  by (simp add: price_of_def first_price_def trimmed_desc_def py_split_def
      py_float_def char_eval round_tenths)

lemma total_tenths:
  "get_total_cost [t\<lparr>t_content := [pound] @ ''0.1''\<rparr>, u\<lparr>t_content := [pound] @ ''0.2''\<rparr>] =
     Inr (PFloat (Fin (1351079888211149 / 4503599627370496)))"
proof -
  let ?a = "t\<lparr>t_content := [pound] @ ''0.1''\<rparr>" and ?b = "u\<lparr>t_content := [pound] @ ''0.2''\<rparr>"
  have p: "price_of ?a = Inr (Some (Fin (3602879701896397 / 36028797018963968)))"
    "price_of ?b = Inr (Some (Fin (3602879701896397 / 18014398509481984)))"
    by (rule price_tenth, rule price_fifth)
  have h: "\<forall>x\<in>set [?a, ?b]. price_of x \<noteq> Inl ValueError"
    unfolding list.set ball_simps p by simp
  have s: "prices [?a, ?b] = [Fin (3602879701896397 / 36028797018963968),
                              Fin (3602879701896397 / 18014398509481984)]"
    unfolding prices_def list.map p by simp
  show ?thesis
    unfolding get_total_cost_eq if_P[OF h] s by (simp add: float_sum_def round_tenths)
qed

lemma str_tenths:
  "str_float (Fin (1351079888211149 / 4503599627370496)) = ''0.30000000000000004''"
  by (simp add: float_eval repr_eval)

text \<open>
  C6. The reference examples of the cost computation: a task "Buy milk [pound]3.50 and
  eggs" costs 3.5, "No price here" costs 0 (the int), "[pound]10 [pound]20" costs 10
  (only the first word with the pound sign counts), "Rent: [pound]450.00!!" is stripped
  to "Rent [pound]450.00" and costs 450; over several tasks, none with an unreadable
  price, the total is the sum of the prices of the tasks, at most one price for a task:
  the int 0 when no task has a price, and else the float sum 0.0 + f1 + f2 + ... of
  the prices in the order of the tasks, each addition rounded as Python rounds it.
\<close>

theorem total_cost_examples:
  "get_total_cost [t\<lparr>t_content := ''Buy milk '' @ [pound] @ ''3.50 and eggs''\<rparr>]
     = Inr (PFloat (Fin (7 / 2))) \<and>
   get_total_cost [t\<lparr>t_content := ''No price here''\<rparr>] = Inr (PInt 0) \<and>
   get_total_cost [t\<lparr>t_content := [pound] @ ''10 '' @ [pound] @ ''20''\<rparr>]
     = Inr (PFloat (Fin 10)) \<and>
   trimmed_desc (t\<lparr>t_content := ''Rent: '' @ [pound] @ ''450.00!!''\<rparr>)
     = ''Rent '' @ [pound] @ ''450.00'' \<and>
   get_total_cost [t\<lparr>t_content := ''Rent: '' @ [pound] @ ''450.00!!''\<rparr>]
     = Inr (PFloat (Fin 450)) \<and>
   (\<forall>ts. (\<forall>t\<in>set ts. price_of t \<noteq> Inl ValueError) \<longrightarrow>
      get_total_cost ts =
        Inr (if prices ts = [] then PInt 0
             else PFloat (foldl float_add (Fin 0) (prices ts))) \<and>
      length (prices ts) \<le> length ts)"
proof (intro conjI allI impI)
  show "get_total_cost [t\<lparr>t_content := ''Buy milk '' @ [pound] @ ''3.50 and eggs''\<rparr>]
     = Inr (PFloat (Fin (7 / 2)))"
    unfolding total_single price_milk by (simp add: round_exact)
  show "get_total_cost [t\<lparr>t_content := ''No price here''\<rparr>] = Inr (PInt 0)"
    unfolding total_single price_none by simp
  show "get_total_cost [t\<lparr>t_content := [pound] @ ''10 '' @ [pound] @ ''20''\<rparr>]
     = Inr (PFloat (Fin 10))"
    unfolding total_single price_first by (simp add: round_exact)
  show "trimmed_desc (t\<lparr>t_content := ''Rent: '' @ [pound] @ ''450.00!!''\<rparr>)
     = ''Rent '' @ [pound] @ ''450.00''"
    by (rule trimmed_rent)
  show "get_total_cost [t\<lparr>t_content := ''Rent: '' @ [pound] @ ''450.00!!''\<rparr>]
     = Inr (PFloat (Fin 450))"
    unfolding total_single price_rent by (simp add: round_exact)
next
  fix ts
  assume "\<forall>t\<in>set ts. price_of t \<noteq> Inl ValueError"
  then show "get_total_cost ts =
        Inr (if prices ts = [] then PInt 0
             else PFloat (foldl float_add (Fin 0) (prices ts)))"
    by (simp add: get_total_cost_eq float_sum_def)
next
  fix ts
  show "length (prices ts) \<le> length ts" by (rule length_prices)
qed

theorem total_cost_examples_witness:
  "get_total_cost
     [(task_of [])\<lparr>t_content := ''Buy milk '' @ [pound] @ ''3.50 and eggs''\<rparr>,
      (task_of [])\<lparr>t_content := ''No price here''\<rparr>,
      (task_of [])\<lparr>t_content := [pound] @ ''10 '' @ [pound] @ ''20''\<rparr>] =
   Inr (PFloat (Fin (27 / 2)))"
proof -
  let ?a = "(task_of [])\<lparr>t_content := ''Buy milk '' @ [pound] @ ''3.50 and eggs''\<rparr>"
  let ?b = "(task_of [])\<lparr>t_content := ''No price here''\<rparr>"
  let ?c = "(task_of [])\<lparr>t_content := [pound] @ ''10 '' @ [pound] @ ''20''\<rparr>"
  have p: "price_of ?a = Inr (Some (Fin (7 / 2)))" "price_of ?b = Inr None"
    "price_of ?c = Inr (Some (Fin 10))"
    by (rule price_milk, rule price_none, rule price_first)
  have h: "\<forall>t\<in>set [?a, ?b, ?c]. price_of t \<noteq> Inl ValueError"
    using p by simp
  have s: "prices [?a, ?b, ?c] = [Fin (7 / 2), Fin 10]"
    unfolding prices_def list.map p by simp
  have e: "get_total_cost [?a, ?b, ?c] =
        Inr (if prices [?a, ?b, ?c] = [] then PInt 0
             else PFloat (foldl float_add (Fin 0) (prices [?a, ?b, ?c])))"
    using total_cost_examples [of "task_of []", THEN conjunct2, THEN conjunct2, THEN conjunct2,
        THEN conjunct2, THEN conjunct2, THEN spec, THEN mp, OF h, THEN conjunct1] .
  show ?thesis unfolding e s by (simp add: round_exact)
qed

text \<open>
  C10. The cost computation is partial: a task whose first word with the pound sign has
  a rest that \<^verbatim>\<open>float()\<close> cannot read, as in "Fee [pound]TBD" or a bare pound sign,
  makes it raise ValueError; it returns a total exactly when, in every task, the rest
  of the first such word is readable, and it raises no other error.
\<close>

theorem total_cost_partial:
  "get_total_cost [t\<lparr>t_content := ''Fee '' @ [pound] @ ''TBD''\<rparr>] = Inl ValueError \<and>
   get_total_cost [t\<lparr>t_content := [pound]\<rparr>] = Inl ValueError \<and>
   (\<forall>ts. (\<exists>r. get_total_cost ts = Inr r) \<longleftrightarrow>
      (\<forall>t\<in>set ts. \<forall>w. first_price t = Some w \<longrightarrow> py_float (drop 1 w) \<noteq> None)) \<and>
   (\<forall>ts e. get_total_cost ts = Inl e \<longrightarrow> e = ValueError)"
proof (intro conjI allI impI)
  show "get_total_cost [t\<lparr>t_content := ''Fee '' @ [pound] @ ''TBD''\<rparr>] = Inl ValueError"
    unfolding total_single price_tbd by simp
  show "get_total_cost [t\<lparr>t_content := [pound]\<rparr>] = Inl ValueError"
    unfolding total_single price_bare by simp
next
  fix ts
  have "(\<forall>t\<in>set ts. price_of t \<noteq> Inl ValueError) \<longleftrightarrow>
        (\<forall>t\<in>set ts. \<forall>w. first_price t = Some w \<longrightarrow> py_float (drop 1 w) \<noteq> None)"
    by (auto simp: price_of_def split: option.splits)
  then show "(\<exists>r. get_total_cost ts = Inr r) \<longleftrightarrow>
        (\<forall>t\<in>set ts. \<forall>w. first_price t = Some w \<longrightarrow> py_float (drop 1 w) \<noteq> None)"
    unfolding get_total_cost_eq by (simp split: if_splits)
next
  fix ts e assume "get_total_cost ts = Inl e"
  then show "e = ValueError" unfolding get_total_cost_eq by (simp split: if_splits)
qed

theorem total_cost_partial_witness:
  "\<exists>r. get_total_cost [(task_of [])\<lparr>t_content := [pound] @ ''10 '' @ [pound] @ ''20''\<rparr>] = Inr r"
proof -
  let ?c = "(task_of [])\<lparr>t_content := [pound] @ ''10 '' @ [pound] @ ''20''\<rparr>"
  have p: "price_of ?c = Inr (Some (Fin 10))" by (rule price_first)
  have h: "\<forall>t\<in>set [?c]. \<forall>w. first_price t = Some w \<longrightarrow> py_float (drop 1 w) \<noteq> None"
  proof (intro ballI allI impI)
    fix t w assume "t \<in> set [?c]" and w: "first_price t = Some w"
    then have "t = ?c" by simp
    with p w show "py_float (drop 1 w) \<noteq> None"
      by (auto simp only: price_of_def split: option.splits)
  qed
  show ?thesis
    using total_cost_partial [of "task_of []", THEN conjunct2, THEN conjunct2, THEN conjunct1,
        THEN spec, THEN iffD2, OF h] .
qed

section \<open>Properties of the titles\<close>

lemma replace_append: "replace a r (x @ y) = replace a r x @ replace a r y"
  by (simp add: replace_def)

lemma mark_append: "mark (x @ y) = mark x @ mark y"
  by (simp add: mark_def replace_append)

lemma expected_title_Backlog:
  "startswith (s_name s) ''Backlog'' \<Longrightarrow> expected_title now sections tasks s = Inr ''Backlog''"
  by (simp add: expected_title_def)

lemma expected_title_other:
  assumes "\<not> startswith (s_name s) ''Backlog''"
    and "get_total_cost (tasks_for tasks s) = Inr cost"
  shows "expected_title now sections tasks s =
           Inr (if Some (s_id s) = get_current_section_id now sections \<and> num_gt cost MONTHLY_BUDGET
                then mark (base_title s cost) else base_title s cost)"
  using assms by (simp add: expected_title_def tasks_for_def mark_def)

lemma expected_title_Inr_cost:
  assumes "\<not> startswith (s_name s) ''Backlog''"
    and "expected_title now sections tasks s = Inr title"
  shows "\<exists>cost. get_total_cost (tasks_for tasks s) = Inr cost"
  using assms by (auto simp: expected_title_def tasks_for_def split: sum.splits)

lemma titles_loop_ok:
  assumes "\<forall>s\<in>set ss. \<exists>title. expected_title now sections tasks s = Inr title"
  shows "\<exists>cmds' n'. titles_loop now gen sections tasks ss (cmds, n) = Inr (cmds @ cmds', n') \<and>
           map update_of cmds' =
             map (\<lambda>s. Some (s_id s, projr (expected_title now sections tasks s)))
               (filter (\<lambda>s. expected_title now sections tasks s \<noteq> Inr (s_name s)) ss)"
  using assms
proof (induction ss arbitrary: cmds n)
  case Nil
  then show ?case by simp
next
  case (Cons s ss)
  then obtain title where t: "expected_title now sections tasks s = Inr title" by auto
  have rest: "\<forall>s\<in>set ss. \<exists>title. expected_title now sections tasks s = Inr title"
    using Cons.prems by simp
  show ?case
  proof (cases "title = s_name s")
    case True
    with t Cons.IH[OF rest, of cmds n] show ?thesis by simp
  next
    case False
    from Cons.IH[OF rest, of "cmds @ [rename_section (s_id s) title (gen n)]" "n + 1"]
    obtain cmds' n' where
      r: "titles_loop now gen sections tasks ss
            (cmds @ [rename_section (s_id s) title (gen n)], n + 1) =
          Inr ((cmds @ [rename_section (s_id s) title (gen n)]) @ cmds', n')"
         "map update_of cmds' =
             map (\<lambda>s. Some (s_id s, projr (expected_title now sections tasks s)))
               (filter (\<lambda>s. expected_title now sections tasks s \<noteq> Inr (s_name s)) ss)"
      by blast
    show ?thesis
      using t False r
      by (intro exI[of _ "rename_section (s_id s) title (gen n) # cmds'"] exI[of _ n'])
         (simp add: rename_section_def)
  qed
qed

lemma current_section_matches:
  assumes "get_current_section_id now sections = Some i" "distinct (map s_id sections)"
    "s \<in> set sections" "s_id s = i"
  shows "startswith (lower (s_name s)) (lower (now_label now))"
  using assms
proof (induction sections)
  case Nil
  then show ?case by simp
next
  case (Cons a sections)
  show ?case
  proof (cases "startswith (lower (s_name a)) (lower (now_label now))")
    case True
    then have "s_id a = i" using Cons.prems(1) by simp
    then have "s = a" using Cons.prems(2,3,4) by (auto simp: image_iff)
    with True show ?thesis by simp
  next
    case False
    then have g: "get_current_section_id now sections = Some i" using Cons.prems(1) by simp
    have "\<exists>s'\<in>set sections. s_id s' = i" using g
      by (induction sections) (auto split: if_splits)
    then have "s_id a \<noteq> i" using Cons.prems(2) by (auto simp: image_iff)
    then have "s \<in> set sections" using Cons.prems(3,4) by auto
    then show ?thesis using Cons.IH[OF g] Cons.prems(2,4) by simp
  qed
qed

lemma now_label_not_b: "lower (now_label now) = c # r \<Longrightarrow> c \<noteq> CHR ''b''"
  by (auto simp: now_label_def strftime_BY_def month_name_def lower_def lower_char_def
      upper_chars_def lower_chars_def split: if_splits)

lemma current_not_Backlog:
  assumes "startswith (lower name) (lower (now_label now))"
  shows "\<not> startswith name ''Backlog''"
proof
  assume b: "startswith name ''Backlog''"
  then obtain r where n: "name = CHR ''B'' # r"
    by (cases name) (auto simp: startswith_def)
  have ne: "lower (now_label now) \<noteq> []"
    by (simp add: now_label_def strftime_BY_def lower_def)
  then obtain c l where l: "lower (now_label now) = c # l" by (cases "lower (now_label now)") auto
  have "lower name = CHR ''b'' # lower r"
    unfolding n by (simp add: lower_def lower_char_def upper_chars_def lower_chars_def)
  with assms l have "c = CHR ''b''" by (simp add: startswith_def)
  with now_label_not_b[OF l] show False by simp
qed


lemmas str_eval = str_int_def str_nat.simps digit_char_def MONTHLY_BUDGET_def

lemma str_exact:
  "str_float (Fin 550) = ''550.0''" "str_float (Fin 600) = ''600.0''"
  "str_float (Fin 500) = ''500.0''"
  by (simp_all add: float_eval repr_eval)

lemma ex_current: "get_current_section_id ex_now [ex_march, ex_april] = Some ''s1''"
  by (simp add: ex_now_def ex_march_def ex_april_def now_label_def strftime_BY_def month_name_def
      char_eval str_eval)

lemma ex_cost_march:
  "get_total_cost (tasks_for [ex_task_march, ex_task_april] ex_march) = Inr (PFloat (Fin 550))"
  by (simp add: tasks_for_def ex_task_march_def ex_task_april_def ex_march_def get_total_cost_def
      trimmed_desc_def py_split_def py_float_def int_to_float_0 round_exact char_eval)

lemma ex_cost_april:
  "get_total_cost (tasks_for [ex_task_march, ex_task_april] ex_april) = Inr (PFloat (Fin 600))"
  by (simp add: tasks_for_def ex_task_march_def ex_task_april_def ex_april_def get_total_cost_def
      trimmed_desc_def py_split_def py_float_def int_to_float_0 round_exact char_eval)

lemma ex_base_march:
  "base_title ex_march (PFloat (Fin 550)) =
     ''March 2025 ('' @ [pound] @ ''550.0 / '' @ [pound] @ ''500)''"
  by (simp add: base_title_def ex_march_def py_split_def is_space_def str_eval str_exact)

lemma ex_base_april:
  "base_title ex_april (PFloat (Fin 600)) =
     ''April 2025 ('' @ [pound] @ ''600.0 / '' @ [pound] @ ''500)''"
  by (simp add: base_title_def ex_april_def py_split_def is_space_def str_eval str_exact)

lemma ex_mark_march:
  "mark (''March 2025 ('' @ [pound] @ ''550.0 / '' @ [pound] @ ''500)'') =
     ''March 2025 !!! '' @ [pound] @ ''550.0 / '' @ [pound] @ ''500 !!!''"
  by (simp add: mark_def replace_def pound_def)

lemma ex_not_backlog: "\<not> startswith (s_name ex_march) ''Backlog''"
    "\<not> startswith (s_name ex_april) ''Backlog''"
  by (simp_all add: ex_march_def ex_april_def startswith_def)

lemma ex_title_march:
  "expected_title ex_now [ex_march, ex_april] [ex_task_march, ex_task_april] ex_march =
     Inr (''March 2025 !!! '' @ [pound] @ ''550.0 / '' @ [pound] @ ''500 !!!'')"
proof -
  have g: "num_gt (PFloat (Fin 550)) MONTHLY_BUDGET" by (simp add: MONTHLY_BUDGET_def)
  have i: "Some (s_id ex_march) = get_current_section_id ex_now [ex_march, ex_april]"
    unfolding ex_current by (simp add: ex_march_def)
  show ?thesis
    unfolding expected_title_other[OF ex_not_backlog(1) ex_cost_march] ex_base_march
    using g i by (simp only: ex_mark_march simp_thms if_True)
qed


text \<open>
  C7 (as stated, refuted). The section "March 2025" is the section of the current month
  on 2025-03 and its one task costs 550: its name does not start with "Backlog", yet its
  expected title is not its first two words followed by
  " ([pound]550.0 / [pound]500)", but the title with the overspend markers.
\<close>

theorem section_title_counterexample:
  "\<not> startswith (s_name ex_march) ''Backlog'' \<and>
   get_total_cost (tasks_for [ex_task_march, ex_task_april] ex_march) = Inr (PFloat (Fin 550)) \<and>
   join_sp (take 2 (py_split (s_name ex_march))) @
     '' ('' @ [pound] @ str_num (PFloat (Fin 550)) @ '' / '' @ [pound] @ str_int MONTHLY_BUDGET @ '')''
     = ''March 2025 ('' @ [pound] @ ''550.0 / '' @ [pound] @ ''500)'' \<and>
   expected_title ex_now [ex_march, ex_april] [ex_task_march, ex_task_april] ex_march =
     Inr (''March 2025 !!! '' @ [pound] @ ''550.0 / '' @ [pound] @ ''500 !!!'') \<and>
   expected_title ex_now [ex_march, ex_april] [ex_task_march, ex_task_april] ex_march \<noteq>
     Inr (''March 2025 ('' @ [pound] @ ''550.0 / '' @ [pound] @ ''500)'')"
proof (intro conjI)
  show "\<not> startswith (s_name ex_march) ''Backlog''" by (rule ex_not_backlog(1))
  show "get_total_cost (tasks_for [ex_task_march, ex_task_april] ex_march) = Inr (PFloat (Fin 550))"
    by (rule ex_cost_march)
  show "join_sp (take 2 (py_split (s_name ex_march))) @
     '' ('' @ [pound] @ str_num (PFloat (Fin 550)) @ '' / '' @ [pound] @ str_int MONTHLY_BUDGET @ '')''
     = ''March 2025 ('' @ [pound] @ ''550.0 / '' @ [pound] @ ''500)''"
    using ex_base_march unfolding base_title_def .
  show "expected_title ex_now [ex_march, ex_april] [ex_task_march, ex_task_april] ex_march =
     Inr (''March 2025 !!! '' @ [pound] @ ''550.0 / '' @ [pound] @ ''500 !!!'')"
    by (rule ex_title_march)
  show "expected_title ex_now [ex_march, ex_april] [ex_task_march, ex_task_april] ex_march \<noteq>
     Inr (''March 2025 ('' @ [pound] @ ''550.0 / '' @ [pound] @ ''500)'')"
    unfolding ex_title_march by simp
qed

text \<open>
  C7 (amended). When the cost of every section of the working set computes: a section
  whose name starts with "Backlog" has the expected title "Backlog"; any other section
  has as expected title the first two words of its name followed by
  " ([pound]cost / [pound]MONTHLY_BUDGET)", where the cost is the total over all tasks
  assigned to it whatever their completion or deletion status, except that for the
  section of the current month with a cost above MONTHLY_BUDGET the parentheses of that
  title are replaced by the markers; and \<^verbatim>\<open>set_section_titles\<close> emits rename commands
  for exactly the sections whose expected title differs from their name, in order,
  each with the section's id and its expected title.
\<close>

theorem section_titles:
  assumes "\<forall>s\<in>set sections. \<exists>title. expected_title now sections tasks s = Inr title"
  shows "(\<forall>s\<in>set sections. startswith (s_name s) ''Backlog'' \<longrightarrow>
            expected_title now sections tasks s = Inr ''Backlog'') \<and>
         (\<forall>s\<in>set sections. \<not> startswith (s_name s) ''Backlog'' \<longrightarrow>
            (\<exists>cost. get_total_cost (filter (\<lambda>t. t_section_id t = Some (s_id s)) tasks) = Inr cost \<and>
               expected_title now sections tasks s =
                 Inr (if Some (s_id s) = get_current_section_id now sections
                         \<and> num_gt cost MONTHLY_BUDGET
                      then mark (join_sp (take 2 (py_split (s_name s))) @ '' ('' @ [pound] @
                                 str_num cost @ '' / '' @ [pound] @ str_int MONTHLY_BUDGET @ '')'')
                      else join_sp (take 2 (py_split (s_name s))) @ '' ('' @ [pound] @
                                 str_num cost @ '' / '' @ [pound] @ str_int MONTHLY_BUDGET @ '')''))) \<and>
         (\<exists>cmds n'. set_section_titles now gen sections tasks n = Inr (cmds, n') \<and>
            map update_of cmds =
              map (\<lambda>s. Some (s_id s, projr (expected_title now sections tasks s)))
                (filter (\<lambda>s. expected_title now sections tasks s \<noteq> Inr (s_name s)) sections))"
proof (intro conjI ballI impI)
  fix s assume "s \<in> set sections" "startswith (s_name s) ''Backlog''"
  then show "expected_title now sections tasks s = Inr ''Backlog''"
    by (simp add: expected_title_Backlog)
next
  fix s assume s: "s \<in> set sections" and nb: "\<not> startswith (s_name s) ''Backlog''"
  from assms s obtain title where "expected_title now sections tasks s = Inr title" by blast
  from expected_title_Inr_cost[OF nb this] obtain cost where
    c: "get_total_cost (tasks_for tasks s) = Inr cost" by blast
  show "\<exists>cost. get_total_cost (filter (\<lambda>t. t_section_id t = Some (s_id s)) tasks) = Inr cost \<and>
               expected_title now sections tasks s =
                 Inr (if Some (s_id s) = get_current_section_id now sections
                         \<and> num_gt cost MONTHLY_BUDGET
                      then mark (join_sp (take 2 (py_split (s_name s))) @ '' ('' @ [pound] @
                                 str_num cost @ '' / '' @ [pound] @ str_int MONTHLY_BUDGET @ '')'')
                      else join_sp (take 2 (py_split (s_name s))) @ '' ('' @ [pound] @
                                 str_num cost @ '' / '' @ [pound] @ str_int MONTHLY_BUDGET @ '')'')"
    using c expected_title_other[OF nb c, of now sections]
    unfolding tasks_for_def base_title_def by (intro exI[of _ cost]) simp
next
  from titles_loop_ok[OF assms, of gen "[]" n]
  show "\<exists>cmds n'. set_section_titles now gen sections tasks n = Inr (cmds, n') \<and>
            map update_of cmds =
              map (\<lambda>s. Some (s_id s, projr (expected_title now sections tasks s)))
                (filter (\<lambda>s. expected_title now sections tasks s \<noteq> Inr (s_name s)) sections)"
    unfolding set_section_titles_def by simp
qed


lemma ex_title_backlog:
  "expected_title ex_now [ex_backlog, ex_april] [] ex_backlog = Inr ''Backlog''"
  by (rule expected_title_Backlog) (simp add: ex_backlog_def startswith_def)

lemma ex_title_april_empty:
  "expected_title ex_now [ex_backlog, ex_april] [] ex_april =
     Inr (''April 2025 ('' @ [pound] @ ''0 / '' @ [pound] @ ''500)'')"
proof -
  have c: "get_total_cost (tasks_for [] ex_april) = Inr (PInt 0)"
    by (simp add: tasks_for_def get_total_cost_def)
  have b: "base_title ex_april (PInt 0) = ''April 2025 ('' @ [pound] @ ''0 / '' @ [pound] @ ''500)''"
    by (simp add: base_title_def ex_april_def py_split_def is_space_def str_eval)
  show ?thesis
    unfolding expected_title_other[OF ex_not_backlog(2) c] b
    by (simp add: MONTHLY_BUDGET_def)
qed

theorem section_titles_witness:
  "\<exists>cmds n'. set_section_titles ex_now ex_gen [ex_backlog, ex_april] [] 0 = Inr (cmds, n') \<and>
     map update_of cmds =
       [Some (''s0'', ''Backlog''),
        Some (''s2'', ''April 2025 ('' @ [pound] @ ''0 / '' @ [pound] @ ''500)'')]"
proof -
  have h: "\<forall>s\<in>set [ex_backlog, ex_april].
             \<exists>title. expected_title ex_now [ex_backlog, ex_april] [] s = Inr title"
    using ex_title_backlog ex_title_april_empty by simp
  have f: "map (\<lambda>s. Some (s_id s, projr (expected_title ex_now [ex_backlog, ex_april] [] s)))
             (filter (\<lambda>s. expected_title ex_now [ex_backlog, ex_april] [] s \<noteq> Inr (s_name s))
                [ex_backlog, ex_april]) =
           [Some (''s0'', ''Backlog''),
            Some (''s2'', ''April 2025 ('' @ [pound] @ ''0 / '' @ [pound] @ ''500)'')]"
  proof -
    have n0: "(Inr ''Backlog'' :: py_error + string) \<noteq> Inr (s_name ex_backlog)"
      by (simp add: ex_backlog_def)
    have n2: "(Inr (''April 2025 ('' @ [pound] @ ''0 / '' @ [pound] @ ''500)'') :: py_error + string)
                \<noteq> Inr (s_name ex_april)"
      by (simp add: ex_april_def)
    have i0: "s_id ex_backlog = ''s0''" and i2: "s_id ex_april = ''s2''"
      by (simp_all add: ex_backlog_def ex_april_def)
    show ?thesis
      by (simp only: filter.simps list.map ex_title_backlog ex_title_april_empty n0 n2 i0 i2
          if_True sum.sel simp_thms)
  qed
  show ?thesis
    using section_titles [OF h, of ex_gen 0, THEN conjunct2, THEN conjunct2]
    unfolding f .
qed

text \<open>
  C8. In a working set whose section identifiers are all different, a section whose
  identifier is the one of the section of the current month and whose cost exceeds
  MONTHLY_BUDGET has as expected title its title with every "(" replaced by "!!! " and
  every ")" by " !!!", so that the cost stands between "!!! " and " !!!"; a section that
  is not the section of the current month keeps the parentheses (or is "Backlog"),
  whatever its cost.
\<close>

theorem overspend_marker:
  assumes "distinct (map s_id sections)" "s \<in> set sections"
    and "get_total_cost (filter (\<lambda>t. t_section_id t = Some (s_id s)) tasks) = Inr cost"
  shows "(Some (s_id s) = get_current_section_id now sections \<and> num_gt cost MONTHLY_BUDGET \<longrightarrow>
            expected_title now sections tasks s =
              Inr (mark (join_sp (take 2 (py_split (s_name s)))) @ '' !!! '' @ [pound] @
                   mark (str_num cost) @ '' / '' @ [pound] @ str_int MONTHLY_BUDGET @ '' !!!'')) \<and>
         (Some (s_id s) \<noteq> get_current_section_id now sections \<longrightarrow>
            expected_title now sections tasks s =
              Inr (if startswith (s_name s) ''Backlog'' then ''Backlog''
                   else join_sp (take 2 (py_split (s_name s))) @ '' ('' @ [pound] @
                        str_num cost @ '' / '' @ [pound] @ str_int MONTHLY_BUDGET @ '')''))"
proof (intro conjI impI)
  assume a: "Some (s_id s) = get_current_section_id now sections \<and> num_gt cost MONTHLY_BUDGET"
  have c: "get_total_cost (tasks_for tasks s) = Inr cost"
    using assms(3) by (simp add: tasks_for_def)
  have "startswith (lower (s_name s)) (lower (now_label now))"
    using current_section_matches[OF _ assms(1,2) refl] a by simp
  then have nb: "\<not> startswith (s_name s) ''Backlog''" by (rule current_not_Backlog)
  have m: "mark (base_title s cost) =
        mark (join_sp (take 2 (py_split (s_name s)))) @ '' !!! '' @ [pound] @
        mark (str_num cost) @ '' / '' @ [pound] @ str_int MONTHLY_BUDGET @ '' !!!''"
    unfolding base_title_def mark_append
    by (simp add: mark_def replace_def pound_def str_eval)
  show "expected_title now sections tasks s =
              Inr (mark (join_sp (take 2 (py_split (s_name s)))) @ '' !!! '' @ [pound] @
                   mark (str_num cost) @ '' / '' @ [pound] @ str_int MONTHLY_BUDGET @ '' !!!'')"
    unfolding expected_title_other[OF nb c] m[symmetric] using a by simp
next
  assume a: "Some (s_id s) \<noteq> get_current_section_id now sections"
  have c: "get_total_cost (tasks_for tasks s) = Inr cost"
    using assms(3) by (simp add: tasks_for_def)
  show "expected_title now sections tasks s =
              Inr (if startswith (s_name s) ''Backlog'' then ''Backlog''
                   else join_sp (take 2 (py_split (s_name s))) @ '' ('' @ [pound] @
                        str_num cost @ '' / '' @ [pound] @ str_int MONTHLY_BUDGET @ '')'')"
  proof (cases "startswith (s_name s) ''Backlog''")
    case True
    then show ?thesis by (simp add: expected_title_Backlog)
  next
    case False
    show ?thesis
      unfolding expected_title_other[OF False c] using a False by (simp add: base_title_def)
  qed
qed

theorem overspend_marker_witness:
  "expected_title ex_now [ex_march, ex_april] [ex_task_march, ex_task_april] ex_march =
     Inr (''March 2025 !!! '' @ [pound] @ ''550.0 / '' @ [pound] @ ''500 !!!'') \<and>
   expected_title ex_now [ex_march, ex_april] [ex_task_march, ex_task_april] ex_april =
     Inr (''April 2025 ('' @ [pound] @ ''600.0 / '' @ [pound] @ ''500)'')"
proof
  have d: "distinct (map s_id [ex_march, ex_april])"
    by (simp add: ex_march_def ex_april_def)
  have m: "ex_march \<in> set [ex_march, ex_april]" and a: "ex_april \<in> set [ex_march, ex_april]"
    by simp_all
  have cm: "get_total_cost (filter (\<lambda>t. t_section_id t = Some (s_id ex_march))
              [ex_task_march, ex_task_april]) = Inr (PFloat (Fin 550))"
    using ex_cost_march unfolding tasks_for_def .
  have ca: "get_total_cost (filter (\<lambda>t. t_section_id t = Some (s_id ex_april))
              [ex_task_march, ex_task_april]) = Inr (PFloat (Fin 600))"
    using ex_cost_april unfolding tasks_for_def .
  have i: "Some (s_id ex_march) = get_current_section_id ex_now [ex_march, ex_april] \<and>
           num_gt (PFloat (Fin 550)) MONTHLY_BUDGET"
    unfolding ex_current by (simp add: ex_march_def MONTHLY_BUDGET_def)
  have j: "Some (s_id ex_april) \<noteq> get_current_section_id ex_now [ex_march, ex_april]"
    unfolding ex_current by (simp add: ex_april_def)
  have w: "mark (join_sp (take 2 (py_split (s_name ex_march)))) = ''March 2025''"
    by (simp add: ex_march_def py_split_def is_space_def mark_def replace_def)
  have n: "mark (str_num (PFloat (Fin 550))) = ''550.0''"
    by (simp add: str_exact mark_def replace_def)
  have b: "str_int MONTHLY_BUDGET = ''500''" by (simp add: str_eval)
  show "expected_title ex_now [ex_march, ex_april] [ex_task_march, ex_task_april] ex_march =
     Inr (''March 2025 !!! '' @ [pound] @ ''550.0 / '' @ [pound] @ ''500 !!!'')"
    using overspend_marker [OF d m cm, of ex_now, THEN conjunct1, THEN mp, OF i]
    unfolding w n b by simp
  show "expected_title ex_now [ex_march, ex_april] [ex_task_march, ex_task_april] ex_april =
     Inr (''April 2025 ('' @ [pound] @ ''600.0 / '' @ [pound] @ ''500)'')"
    using overspend_marker [OF d a ca, of ex_now, THEN conjunct2, THEN mp, OF j]
      ex_not_backlog(2) ex_base_april
    unfolding base_title_def by simp
qed

end
